theory Spec2Isabelle
  imports Main
begin

section \<open>Shared primitives of the two command handlers\<close>

text \<open>
  Both modules talk to the database through a driver cursor. A call of the driver
  either returns or raises; a raised exception is a value of \<open>exn\<close>, with the
  message \<open>to_native\<close> reads from it. The only exception class the code tells apart
  is psycopg2's \<open>ProgrammingError\<close>.
\<close>

datatype exn = Psycopg2ProgrammingError string | OtherException string

fun to_native :: "exn \<Rightarrow> string" where
  "to_native (Psycopg2ProgrammingError msg) = msg"
| "to_native (OtherException msg) = msg"

text \<open>
  What the invocation did to its session, in order: the connection was made, a statement
  was passed to \<open>cursor.execute\<close> (recorded whether or not the driver then raised), the
  cursor was closed, the connection was closed. A close that raises is not recorded: the
  resource was not released.
\<close>

datatype event = Connect | Execute string | CursorClose | ConnClose

text \<open>
  How an invocation ends: \<open>module.exit_json\<close> with the result, \<open>module.fail_json\<close>
  with a message, or an exception nobody catches.
\<close>

datatype 'r outcome = ExitJson 'r | FailJson string | Uncaught exn

text \<open>Python's truth value of an optional string: \<open>None\<close> and \<open>''\<close> are false.\<close>

definition truthy :: "string option \<Rightarrow> bool" where
  "truthy v = (case v of None \<Rightarrow> False | Some s \<Rightarrow> s \<noteq> [])"

text \<open>
  The connection provider and the driver's two \<open>close\<close> methods are not part of the
  modules: \<open>connect\<close> may fail the module with a message, and each close may raise.
\<close>

record conn_env =
  connect_error :: "string option"
  cursor_close_error :: "exn option"
  conn_close_error :: "exn option"

text \<open>The session is released: the last two events are the two closes, cursor first.\<close>

definition released :: "event list \<Rightarrow> bool" where
  "released tr = (2 \<le> length tr \<and> drop (length tr - 2) tr = [CursorClose, ConnClose])"


section \<open>cockroachdb\_db: the database reconciler\<close>

text \<open>
  One row of \<open>SHOW DATABASES\<close>, fetched as a dict (\<open>rows_type='dict'\<close>); the fields
  are the keys \<open>__fetch_info\<close> reads from \<open>d\<close>.
\<close>

record db_row =
  d_database_name :: string
  d_owner :: string
  d_primary_region :: "string option"
  d_regions :: "string list"
  d_survival_goal :: "string option"

text \<open>
  The collaborator the module does not implement: the server maps a statement text and
  the catalog (the rows \<open>SHOW DATABASES\<close> would list) to a raised exception or to the
  catalog after the statement.
\<close>

record db_env = conn_env +
  server :: "string \<Rightarrow> db_row list \<Rightarrow> exn + db_row list"

datatype state = Present | Absent

text \<open>\<open>module.check_mode\<close> and \<open>module.params\<close> of the reconciler.\<close>

record db_module =
  check_mode :: bool
  p_name :: string
  p_state :: state
  p_owner :: "string option"
  p_target :: "string option"

text \<open>
  The state one invocation threads through its calls: the server's catalog, the events
  so far, and the module-level list \<open>executed_statements\<close> (empty when the process
  starts). A logged statement is the pair \<open>(query, ())\<close>; the parameter tuple is always
  empty here.
\<close>

record session =
  catalog :: "db_row list"
  trace :: "event list"
  executed_statements :: "(string \<times> string list) list"

text \<open>The attributes of a \<open>CockroachDBDatabase\<close> object.\<close>

record database =
  name :: string
  exists :: bool
  primary_region :: "string option"
  regions :: "string list"
  survive_failure :: "string option"
  owner :: "string option"

text \<open>\<open>self.cursor.execute(query)\<close>: the statement is sent; the server answers.\<close>

definition cursor_execute :: "db_env \<Rightarrow> string \<Rightarrow> session \<Rightarrow> (exn + unit) \<times> session" where
  "cursor_execute env query s =
     (let s' = s\<lparr>trace := trace s @ [Execute query]\<rparr> in
      case server env query (catalog s) of
        Inl e \<Rightarrow> (Inl e, s')
      | Inr c \<Rightarrow> (Inr (), s'\<lparr>catalog := c\<rparr>))"

text \<open>The body of the loop of \<open>__fetch_info\<close>; the loop has no \<open>break\<close>.\<close>

definition fetch_row :: "database \<Rightarrow> db_row \<Rightarrow> database" where
  "fetch_row self d =
     (if d_database_name d = name self
      then self\<lparr>exists := True, owner := Some (d_owner d),
                primary_region := d_primary_region d, regions := d_regions d,
                survive_failure := d_survival_goal d\<rparr>
      else self)"

definition fetch_info :: "db_env \<Rightarrow> database \<Rightarrow> session \<Rightarrow> (exn + database) \<times> session" where
  "fetch_info env self s =
     (case cursor_execute env ''SHOW DATABASES'' s of
        (Inl e, s') \<Rightarrow> (Inl e, s')
      | (Inr _, s') \<Rightarrow> (Inr (foldl fetch_row self (catalog s')), s'))"

text \<open>\<open>CockroachDBDatabase.__init__\<close>: the defaults, then \<open>__fetch_info\<close>.\<close>

definition database_init :: "db_env \<Rightarrow> string \<Rightarrow> session \<Rightarrow> (exn + database) \<times> session" where
  "database_init env nm s =
     fetch_info env
       \<lparr>name = nm, exists = False, primary_region = None, regions = [],
        survive_failure = None, owner = None\<rparr> s"

text \<open>The statement text \<open>create\<close> builds, by \<open>%\<close> formatting and \<open>+=\<close>.\<close>

definition create_query :: "db_module \<Rightarrow> database \<Rightarrow> string" where
  \<open>create_query m self =
     (let query = ''CREATE DATABASE "'' @ name self @ ''"'' in
      case p_owner m of
        None \<Rightarrow> query
      | Some ow \<Rightarrow> if ow \<noteq> [] then query @ ''OWNER '' @ ow else query)\<close>

definition create :: "db_env \<Rightarrow> db_module \<Rightarrow> database \<Rightarrow> session \<Rightarrow> (exn + unit) \<times> session" where
  "create env m self s =
     (if check_mode m then (Inr (), s)
      else let query = create_query m self in
        case cursor_execute env query s of
          (Inl e, s') \<Rightarrow> (Inl e, s')
        | (Inr _, s') \<Rightarrow>
            (Inr (), s'\<lparr>executed_statements := executed_statements s' @ [(query, [])]\<rparr>))"

text \<open>\<open>drop\<close> (here \<open>drop_db\<close>) returns \<open>True\<close> in check mode and \<open>None\<close> otherwise; \<open>main\<close> ignores it.\<close>

definition drop_query :: "database \<Rightarrow> string" where
  \<open>drop_query self = ''DROP DATABASE "'' @ name self @ ''"''\<close>

definition drop_db :: "db_env \<Rightarrow> db_module \<Rightarrow> database \<Rightarrow> session \<Rightarrow> (exn + bool option) \<times> session" where
  "drop_db env m self s =
     (if check_mode m then (Inr (Some True), s)
      else let query = drop_query self in
        case cursor_execute env query s of
          (Inl e, s') \<Rightarrow> (Inl e, s')
        | (Inr _, s') \<Rightarrow>
            (Inr None, s'\<lparr>executed_statements := executed_statements s' @ [(query, [])]\<rparr>))"

definition change_owner_query :: "database \<Rightarrow> string \<Rightarrow> string" where
  \<open>change_owner_query self new_owner =
     ''ALTER DATABASE "'' @ name self @ ''" OWNER TO '' @ new_owner\<close>

definition change_owner :: "db_env \<Rightarrow> database \<Rightarrow> string \<Rightarrow> session \<Rightarrow> (exn + unit) \<times> session" where
  "change_owner env self new_owner s =
     (let query = change_owner_query self new_owner in
      case cursor_execute env query s of
        (Inl e, s') \<Rightarrow> (Inl e, s')
      | (Inr _, s') \<Rightarrow>
          (Inr (), s'\<lparr>executed_statements := executed_statements s' @ [(query, [])]\<rparr>))"

text \<open>\<open>modify(owner, target)\<close>: \<open>target\<close> is a parameter the body never reads.\<close>

definition modify ::
  "db_env \<Rightarrow> db_module \<Rightarrow> database \<Rightarrow> string option \<Rightarrow> string option \<Rightarrow> session
    \<Rightarrow> (exn + bool) \<times> session" where
  "modify env m self ow target s =
     (case ow of
        None \<Rightarrow> (Inr False, s)
      | Some new_owner \<Rightarrow>
          if new_owner = [] then (Inr False, s)
          else if check_mode m then (Inr True, s)
          else (case change_owner env self new_owner s of
                  (Inl e, s') \<Rightarrow> (Inl e, s')
                | (Inr _, s') \<Rightarrow> (Inr True, s')))"

text \<open>The \<open># Do job\<close> part of \<open>main\<close>: the verdict \<open>changed\<close>, or the exception.\<close>

definition do_job :: "db_env \<Rightarrow> db_module \<Rightarrow> database \<Rightarrow> session \<Rightarrow> (exn + bool) \<times> session" where
  "do_job env m db s =
     (if p_state m = Present then
        if \<not> exists db then
          (case create env m db s of
             (Inl e, s') \<Rightarrow> (Inl e, s')
           | (Inr _, s') \<Rightarrow> (Inr True, s'))
        else modify env m db (p_owner m) (p_target m) s
      else
        if exists db then
          (case drop_db env m db s of
             (Inl e, s') \<Rightarrow> (Inl e, s')
           | (Inr _, s') \<Rightarrow> (Inr True, s'))
        else (Inr False, s))"

definition cursor_close :: "db_env \<Rightarrow> session \<Rightarrow> (exn + unit) \<times> session" where
  "cursor_close env s =
     (case cursor_close_error env of
        Some e \<Rightarrow> (Inl e, s)
      | None \<Rightarrow> (Inr (), s\<lparr>trace := trace s @ [CursorClose]\<rparr>))"

definition conn_close :: "db_env \<Rightarrow> session \<Rightarrow> (exn + unit) \<times> session" where
  "conn_close env s =
     (case conn_close_error env of
        Some e \<Rightarrow> (Inl e, s)
      | None \<Rightarrow> (Inr (), s\<lparr>trace := trace s @ [ConnClose]\<rparr>))"

text \<open>The keyword arguments of \<open>module.exit_json\<close>.\<close>

record db_kw =
  db_changed :: bool
  db_executed_statements :: "(string \<times> string list) list"

text \<open>
  \<open>main\<close>, run against a server whose catalog is \<open>cat\<close>. No call of \<open>main\<close> is inside
  a \<open>try\<close>: an exception of the driver leaves \<open>main\<close> at the call that raised it.
\<close>

definition db_main :: "db_env \<Rightarrow> db_module \<Rightarrow> db_row list \<Rightarrow> db_kw outcome \<times> session" where
  "db_main env m cat =
     (case connect_error env of
        Some msg \<Rightarrow> (FailJson msg, \<lparr>catalog = cat, trace = [], executed_statements = []\<rparr>)
      | None \<Rightarrow>
          (case database_init env (p_name m)
                  \<lparr>catalog = cat, trace = [Connect], executed_statements = []\<rparr> of
             (Inl e, s1) \<Rightarrow> (Uncaught e, s1)
           | (Inr db, s1) \<Rightarrow>
               (case do_job env m db s1 of
                  (Inl e, s2) \<Rightarrow> (Uncaught e, s2)
                | (Inr changed, s2) \<Rightarrow>
                    (case cursor_close env s2 of
                       (Inl e, s3) \<Rightarrow> (Uncaught e, s3)
                     | (Inr _, s3) \<Rightarrow>
                         (case conn_close env s3 of
                            (Inl e, s4) \<Rightarrow> (Uncaught e, s4)
                          | (Inr _, s4) \<Rightarrow>
                              (ExitJson \<lparr>db_changed = changed,
                                 db_executed_statements = executed_statements s4\<rparr>, s4))))))"

text \<open>
  A small server to run the reconciler on: it knows one database name, \<open>test_db\<close>, and
  the statements the reconciler can send for it; anything else is a syntax error.
\<close>

definition test_db_row :: "string \<Rightarrow> db_row" where
  "test_db_row ow =
     \<lparr>d_database_name = ''test_db'', d_owner = ow, d_primary_region = None,
      d_regions = [], d_survival_goal = None\<rparr>"

definition test_server :: "string \<Rightarrow> db_row list \<Rightarrow> exn + db_row list" where
  \<open>test_server query cat =
     (if query = ''SHOW DATABASES'' then Inr cat
      else if query = ''CREATE DATABASE "test_db"'' then
        (if ''test_db'' \<in> d_database_name ` set cat
         then Inl (Psycopg2ProgrammingError ''database "test_db" already exists'')
         else Inr (cat @ [test_db_row ''root'']))
      else if query = ''DROP DATABASE "test_db"'' then
        (if ''test_db'' \<in> d_database_name ` set cat
         then Inr (filter (\<lambda>d. d_database_name d \<noteq> ''test_db'') cat)
         else Inl (Psycopg2ProgrammingError ''database "test_db" does not exist''))
      else if query = ''ALTER DATABASE "test_db" OWNER TO alice'' then
        (if ''test_db'' \<in> d_database_name ` set cat
         then Inr (map (\<lambda>d. if d_database_name d = ''test_db'' then d\<lparr>d_owner := ''alice''\<rparr> else d) cat)
         else Inl (Psycopg2ProgrammingError ''database "test_db" does not exist''))
      else Inl (Psycopg2ProgrammingError ''syntax error''))\<close>

definition test_env :: db_env where
  "test_env =
     \<lparr>connect_error = None, cursor_close_error = None, conn_close_error = None,
      server = test_server\<rparr>"

definition test_module :: "state \<Rightarrow> string option \<Rightarrow> db_module" where
  "test_module st ow =
     \<lparr>check_mode = False, p_name = ''test_db'', p_state = st, p_owner = ow,
      p_target = None\<rparr>"


section \<open>cockroachdb\_query: the query executor\<close>

text \<open>
  The values a row can hold. \<open>decimal.Decimal\<close> is a coefficient and an exponent
  (\<open>Decimal 1250 (-2)\<close> is \<open>12.50\<close>), \<open>datetime.timedelta\<close> is days, seconds and
  microseconds; a Python float is a value of the type parameter \<open>'f\<close>; \<open>PyOther\<close>
  stands for a value of any other class.
\<close>

datatype decimal = Decimal int int

datatype timedelta = Timedelta int int int

datatype 'f pyval =
    PyNone | PyBool bool | PyInt int | PyFloat 'f | PyStr string
  | PyDecimal decimal | PyTimedelta timedelta | PyOther string

text \<open>
  A row is a sequence of column values: the row object the driver yields, or the plain
  list \<open>list(row)\<close> makes of it.
\<close>

datatype 'f row = DriverRow "'f pyval list" | PyList "'f pyval list"

fun row_items :: "'f row \<Rightarrow> 'f pyval list" where
  "row_items (DriverRow vs) = vs"
| "row_items (PyList vs) = vs"

text \<open>The parameter payload of \<open>cursor.execute\<close>: a list or a dict (in key order).\<close>

datatype 'f args = Positional "'f pyval list" | Named "(string \<times> 'f pyval) list"

text \<open>
  What the cursor does with one statement and its payload: \<open>mogrify\<close> returns the
  rendered text or raises, \<open>execute\<close> returns or raises, then \<open>statusmessage\<close> and
  \<open>rowcount\<close> can be read, and iterating the cursor yields rows and then ends or raises.
\<close>

record 'f response =
  r_mogrify :: "exn + string"
  r_execute :: "exn option"
  r_statusmessage :: "string option"
  r_rowcount :: int
  r_rows :: "'f row list"
  r_iter_error :: "exn option"

text \<open>
  The collaborators of the executor: the driver, and the two Python builtins the
  normalization calls, \<open>float\<close> on a \<open>Decimal\<close> and \<open>str\<close> on a \<open>timedelta\<close>.
\<close>

record 'f q_env = conn_env +
  driver :: "string \<Rightarrow> 'f args option \<Rightarrow> 'f response"
  py_float :: "decimal \<Rightarrow> 'f"
  py_str :: "timedelta \<Rightarrow> string"

text \<open>
  \<open>convert_to_supported\<close> tests with \<open>isinstance\<close>, the loop of \<open>fetch_from_cursor\<close>
  with \<open>type(elem) in ...\<close>; on the values of \<open>pyval\<close>, which has no subclasses, both
  tests read the constructor.
\<close>

definition convert_to_supported :: "('f, 'x) q_env_scheme \<Rightarrow> 'f pyval \<Rightarrow> 'f pyval" where
  "convert_to_supported env val =
     (case val of
        PyDecimal d \<Rightarrow> PyFloat (py_float env d)
      | PyTimedelta t \<Rightarrow> PyStr (py_str env t)
      | _ \<Rightarrow> val)"

text \<open>\<open>type(elem) in TYPES_NEED_TO_CONVERT\<close>.\<close>

definition need_to_convert :: "'f pyval \<Rightarrow> bool" where
  "need_to_convert elem =
     (case elem of PyDecimal _ \<Rightarrow> True | PyTimedelta _ \<Rightarrow> True | _ \<Rightarrow> False)"

text \<open>
  The body of the inner loop of \<open>fetch_from_cursor\<close>: \<open>row\<close> is rebound to a fresh
  list and the element at \<open>i\<close> is replaced. The loop enumerates the row it started with.
\<close>

definition convert_elem :: "('f, 'x) q_env_scheme \<Rightarrow> 'f row \<Rightarrow> nat \<times> 'f pyval \<Rightarrow> 'f row" where
  "convert_elem env row ie =
     (case ie of (i, elem) \<Rightarrow>
        if need_to_convert elem
        then PyList ((row_items row)[i := convert_to_supported env elem])
        else row)"

definition convert_row :: "('f, 'x) q_env_scheme \<Rightarrow> 'f row \<Rightarrow> 'f row" where
  "convert_row env row = foldl (convert_elem env) row (enumerate 0 (row_items row))"

text \<open>
  \<open>fetch_from_cursor\<close>: an exception of the iteration leaves the function, and the rows
  collected so far are lost with its local list.
\<close>

definition fetch_from_cursor :: "('f, 'x) q_env_scheme \<Rightarrow> 'f response \<Rightarrow> exn + 'f row list" where
  "fetch_from_cursor env cur =
     (case r_iter_error cur of
        Some e \<Rightarrow> Inl e
      | None \<Rightarrow> Inr (map (convert_row env) (r_rows cur)))"

definition get_args ::
  "'f pyval list option \<Rightarrow> (string \<times> 'f pyval) list option \<Rightarrow> 'f args option" where
  "get_args positional_args named_args =
     (case positional_args of
        Some (v # vs) \<Rightarrow> Some (Positional (v # vs))
      | _ \<Rightarrow>
          (case named_args of
             Some (kv # kvs) \<Rightarrow> Some (Named (kv # kvs))
           | _ \<Rightarrow> None))"

text \<open>
  \<open>execute\<close>. \<open>Inl\<close> is the message of \<open>module.fail_json\<close>, which ends the process
  (the \<open>SystemExit\<close> it raises is not an \<open>Exception\<close>, so the outer handler lets the
  inner failure through).
\<close>

definition execute ::
  "('f, 'x) q_env_scheme \<Rightarrow> string \<Rightarrow> 'f args option \<Rightarrow> event list
    \<Rightarrow> (string + (string option \<times> int option \<times> string \<times> 'f row list)) \<times> event list" where
  \<open>execute env query args tr =
     (let cur = driver env query args in
      case r_mogrify cur of
        Inl e \<Rightarrow> (Inl (''Cannot execute query "'' @ query @ ''": '' @ to_native e), tr)
      | Inr mogrified_query \<Rightarrow>
          (let tr' = tr @ [Execute query] in
           case r_execute cur of
             Some e \<Rightarrow> (Inl (''Cannot execute query "'' @ query @ ''": '' @ to_native e), tr')
           | None \<Rightarrow>
               (let statusmessage = r_statusmessage cur; rowcount = Some (r_rowcount cur) in
                case fetch_from_cursor env cur of
                  Inr query_result \<Rightarrow>
                    (Inr (statusmessage, rowcount, mogrified_query, query_result), tr')
                | Inl (Psycopg2ProgrammingError msg) \<Rightarrow>
                    (if msg = ''no results to fetch''
                     then (Inr (statusmessage, rowcount, mogrified_query, []), tr')
                     else (Inr (statusmessage, rowcount, mogrified_query, []), tr'))
                | Inl (OtherException msg) \<Rightarrow>
                    (Inl (''Cannot fetch rows from cursor: '' @ msg), tr'))))\<close>

text \<open>\<open>module.params\<close> of the executor; an option the caller left out is \<open>None\<close>.\<close>

record 'f q_module =
  q_query :: string
  q_positional_args :: "'f pyval list option"
  q_named_args :: "(string \<times> 'f pyval) list option"

text \<open>The names of the optional parameters the caller supplied.\<close>

definition supplied :: "'f q_module \<Rightarrow> string list" where
  "supplied m =
     (if q_positional_args m \<noteq> None then [''positional_args''] else [])
     @ (if q_named_args m \<noteq> None then [''named_args''] else [])"

text \<open>
  Modelled from the spec: the argument check of \<open>AnsibleModule\<close>, the automation host's
  class, which is not among the sources. \<open>main\<close> declares the group
  \<open>mutually_exclusive=(('positional_args', 'named_args'),)\<close>; the host rejects an
  invocation that supplies more than one parameter of a declared group.
\<close>

definition check_mutually_exclusive :: "string list list \<Rightarrow> string list \<Rightarrow> string option" where
  "check_mutually_exclusive groups params =
     (if list_ex (\<lambda>g. 1 < length (filter (\<lambda>k. k \<in> set params) g)) groups
      then Some ''parameters are mutually exclusive''
      else None)"

text \<open>\<open>cursor.close(); conn.close()\<close> inside \<open>try ... except Exception: pass\<close>.\<close>

definition close_quietly :: "('x) conn_env_scheme \<Rightarrow> event list \<Rightarrow> event list" where
  "close_quietly env tr =
     (case cursor_close_error env of
        Some e \<Rightarrow> tr
      | None \<Rightarrow>
          (case conn_close_error env of
             Some e \<Rightarrow> tr @ [CursorClose]
           | None \<Rightarrow> tr @ [CursorClose, ConnClose]))"

text \<open>The keyword arguments of \<open>module.exit_json\<close>.\<close>

record 'f query_kw =
  kw_changed :: bool
  kw_statusmessage :: "string option"
  kw_rowcount :: "int option"
  kw_query_result :: "'f row list"
  kw_query :: string

definition query_main :: "('f, 'x) q_env_scheme \<Rightarrow> 'f q_module \<Rightarrow> 'f query_kw outcome \<times> event list" where
  "query_main env m =
     (case check_mutually_exclusive [[''positional_args'', ''named_args'']] (supplied m) of
        Some msg \<Rightarrow> (FailJson msg, [])
      | None \<Rightarrow>
          (case connect_error env of
             Some msg \<Rightarrow> (FailJson msg, [])
           | None \<Rightarrow>
               (let args = get_args (q_positional_args m) (q_named_args m) in
                case execute env (q_query m) args [Connect] of
                  (Inl msg, tr) \<Rightarrow> (FailJson msg, tr)
                | (Inr (statusmsg, rowcount, query, query_result), tr) \<Rightarrow>
                    (ExitJson \<lparr>kw_changed = True, kw_statusmessage = statusmsg,
                       kw_rowcount = rowcount, kw_query_result = query_result,
                       kw_query = query\<rparr>,
                     close_quietly env tr))))"

text \<open>
  A small environment to run the executor on: the driver answers every statement with
  the response \<open>r\<close>, connecting and closing succeed, and a float is named by the decimal
  it was made from.
\<close>

definition test_q_env :: "decimal response \<Rightarrow> decimal q_env" where
  "test_q_env r =
     \<lparr>connect_error = None, cursor_close_error = None, conn_close_error = None,
      driver = (\<lambda>query args. r), py_float = (\<lambda>d. d),
      py_str = (\<lambda>t. ''str(timedelta)'')\<rparr>"

text \<open>The driver's answer to \<open>SELECT 1\<close>, with what iterating the cursor raises.\<close>

definition select_1 :: "exn option \<Rightarrow> decimal response" where
  "select_1 iter_error =
     \<lparr>r_mogrify = Inr ''SELECT 1'', r_execute = None, r_statusmessage = Some ''SELECT 1'',
      r_rowcount = 1, r_rows = [DriverRow [PyInt 1]], r_iter_error = iter_error\<rparr>"

definition test_q_module :: "string \<Rightarrow> decimal q_module" where
  "test_q_module query =
     \<lparr>q_query = query, q_positional_args = None, q_named_args = None\<rparr>"



section \<open>Auxiliary notions for the proofs\<close>

text \<open>The object \<open>__init__\<close> builds from the rows \<open>SHOW DATABASES\<close> returned.\<close>

definition fetched :: "string \<Rightarrow> db_row list \<Rightarrow> database" where
  "fetched nm rows =
     foldl fetch_row
       \<lparr>name = nm, exists = False, primary_region = None, regions = [],
        survive_failure = None, owner = None\<rparr> rows"

text \<open>The value \<open>main\<close> assigns to \<open>changed\<close> when no call raises.\<close>

definition verdict :: "db_module \<Rightarrow> database \<Rightarrow> bool" where
  "verdict m db =
     (if p_state m = Present then (\<not> exists db \<or> truthy (p_owner m)) else exists db)"

text \<open>A server that lists the catalog and loses the connection on anything else.\<close>

definition failing_server :: "string \<Rightarrow> db_row list \<Rightarrow> exn + db_row list" where
  "failing_server query cat =
     (if query = ''SHOW DATABASES'' then Inr cat else Inl (OtherException ''connection lost''))"


section \<open>Properties of the reconciler\<close>

subsection \<open>What the catalog read and the job part compute\<close>

lemma foldl_fetch_row_name: "name (foldl fetch_row self rows) = name self"
  by (induction rows arbitrary: self) (simp_all add: fetch_row_def)

lemma foldl_fetch_row_exists:
  "exists (foldl fetch_row self rows) = (exists self \<or> name self \<in> d_database_name ` set rows)"
  by (induction rows arbitrary: self) (auto simp: fetch_row_def)

lemma fetched_name: "name (fetched nm rows) = nm"
  by (simp add: fetched_def foldl_fetch_row_name)

lemma fetched_exists: "exists (fetched nm rows) = (nm \<in> d_database_name ` set rows)"
  by (simp add: fetched_def foldl_fetch_row_exists)

lemma database_init_eq:
  "database_init env nm s =
     (case server env ''SHOW DATABASES'' (catalog s) of
        Inl e \<Rightarrow> (Inl e, s\<lparr>trace := trace s @ [Execute ''SHOW DATABASES'']\<rparr>)
      | Inr c \<Rightarrow> (Inr (fetched nm c),
                  s\<lparr>trace := trace s @ [Execute ''SHOW DATABASES''], catalog := c\<rparr>))"
  by (simp add: database_init_def fetch_info_def cursor_execute_def fetched_def Let_def
      split: sum.splits)

lemma do_job_check_mode:
  "check_mode m \<Longrightarrow> do_job env m db s = (Inr (verdict m db), s)"
  by (auto simp: do_job_def create_def drop_db_def modify_def verdict_def truthy_def
      split: option.splits)

lemma do_job_verdict:
  "do_job env m db s = (Inr v, s') \<Longrightarrow> v = verdict m db"
  by (auto simp: do_job_def create_def drop_db_def modify_def change_owner_def verdict_def
      truthy_def Let_def split: option.splits if_splits prod.splits sum.splits)

lemma methods_check_mode:
  "check_mode m \<Longrightarrow>
     snd (create env m self s) = s \<and> snd (drop_db env m self s) = s
     \<and> snd (modify env m self ow tg s) = s"
  by (simp add: create_def drop_db_def modify_def split: option.splits)

lemma db_main_check_mode:
  assumes "check_mode m"
  shows "db_main env m cat =
     (case connect_error env of
        Some msg \<Rightarrow> (FailJson msg, \<lparr>catalog = cat, trace = [], executed_statements = []\<rparr>)
      | None \<Rightarrow>
         (case server env ''SHOW DATABASES'' cat of
            Inl e \<Rightarrow> (Uncaught e, \<lparr>catalog = cat, trace = [Connect, Execute ''SHOW DATABASES''],
                         executed_statements = []\<rparr>)
          | Inr c \<Rightarrow>
             (case cursor_close_error env of
                Some e \<Rightarrow> (Uncaught e, \<lparr>catalog = c, trace = [Connect, Execute ''SHOW DATABASES''],
                         executed_statements = []\<rparr>)
              | None \<Rightarrow>
                 (case conn_close_error env of
                    Some e \<Rightarrow> (Uncaught e, \<lparr>catalog = c,
                         trace = [Connect, Execute ''SHOW DATABASES'', CursorClose],
                         executed_statements = []\<rparr>)
                  | None \<Rightarrow>
                     (ExitJson \<lparr>db_changed = verdict m (fetched (p_name m) c),
                        db_executed_statements = []\<rparr>,
                      \<lparr>catalog = c,
                         trace = [Connect, Execute ''SHOW DATABASES'', CursorClose, ConnClose],
                         executed_statements = []\<rparr>)))))"
  by (simp add: db_main_def database_init_eq do_job_check_mode [OF assms]
      cursor_close_def conn_close_def split: option.splits sum.splits)

lemma db_main_exit:
  assumes "db_main env m cat = (ExitJson kw, s)"
  shows "connect_error env = None \<and> cursor_close_error env = None \<and> conn_close_error env = None
    \<and> (\<exists>c. server env ''SHOW DATABASES'' cat = Inr c
          \<and> db_changed kw = verdict m (fetched (p_name m) c))"
  using assms
  by (auto simp: db_main_def database_init_eq cursor_close_def conn_close_def
      split: option.splits sum.splits prod.splits dest: do_job_verdict)

lemma db_main_in_desired_state:
  assumes "connect_error env = None" "cursor_close_error env = None" "conn_close_error env = None"
    and "server env ''SHOW DATABASES'' c = Inr c"
    and "\<not> verdict m (fetched (p_name m) c)"
  shows "db_main env m c =
     (ExitJson \<lparr>db_changed = False, db_executed_statements = []\<rparr>,
      \<lparr>catalog = c, trace = [Connect, Execute ''SHOW DATABASES'', CursorClose, ConnClose],
       executed_statements = []\<rparr>)"
  using assms
  by (auto simp: db_main_def database_init_eq do_job_def modify_def verdict_def truthy_def
      cursor_close_def conn_close_def split: option.splits if_splits)

lemma db_main_first_run:
  assumes nc: "\<not> check_mode m"
    and ow: "p_state m = Absent \<or> \<not> truthy (p_owner m)"
    and sh: "\<forall>c. server env ''SHOW DATABASES'' c = Inr c"
    and run: "db_main env m cat = (ExitJson kw, s)"
  shows \<open>(p_state m = Present \<and> p_name m \<in> d_database_name ` set cat \<and> catalog s = cat)
      \<or> (p_state m = Present \<and> p_name m \<notin> d_database_name ` set cat
          \<and> server env (''CREATE DATABASE "'' @ p_name m @ ''"'') cat = Inr (catalog s))
      \<or> (p_state m = Absent \<and> p_name m \<notin> d_database_name ` set cat \<and> catalog s = cat)
      \<or> (p_state m = Absent \<and> p_name m \<in> d_database_name ` set cat
          \<and> server env (''DROP DATABASE "'' @ p_name m @ ''"'') cat = Inr (catalog s))\<close>
  using nc ow run sh
  apply (simp add: db_main_def database_init_eq cursor_close_def conn_close_def
      split: option.splits sum.splits prod.splits)
  apply (cases "p_state m")
  apply (auto simp: do_job_def create_def create_query_def drop_db_def drop_query_def modify_def
      cursor_execute_def truthy_def fetched_exists fetched_name Let_def
      split: option.splits sum.splits prod.splits if_splits)
  done

lemma test_server_show: "test_server ''SHOW DATABASES'' c = Inr c"
  by (simp add: test_server_def)

lemma test_server_create:
  \<open>test_server (''CREATE DATABASE "'' @ ''test_db'' @ ''"'') c = Inr c'
     \<Longrightarrow> ''test_db'' \<in> d_database_name ` set c'\<close>
  by (auto simp: test_server_def test_db_row_def split: if_splits)

lemma test_server_drop:
  \<open>test_server (''DROP DATABASE "'' @ ''test_db'' @ ''"'') c = Inr c'
     \<Longrightarrow> ''test_db'' \<notin> d_database_name ` set c'\<close>
  by (auto simp: test_server_def split: if_splits)

lemmas db_defs =
  db_main_def database_init_def fetch_info_def fetch_row_def cursor_execute_def do_job_def
  create_def create_query_def drop_db_def drop_query_def modify_def change_owner_def
  change_owner_query_def cursor_close_def conn_close_def Let_def

lemmas test_defs = test_env_def test_module_def test_server_def test_db_row_def


subsection \<open>The claims about the reconciler\<close>

text \<open>
  C1 (the code departs from it): the claim is that, for \<open>state=present\<close> on an existing
  database with an owner requested, \<open>ALTER DATABASE ... OWNER TO ...\<close> is issued and
  \<open>changed=true\<close> reported exactly when the requested owner differs from the current
  one. \<open>modify\<close> never reads \<open>self.owner\<close>: run on a catalog in which \<open>test_db\<close> already
  belongs to \<open>alice\<close>, with owner \<open>alice\<close> requested, it issues the statement and reports
  \<open>changed=true\<close>.
\<close>

theorem alter_owner_issued_when_owner_matches:
  \<open>fst (db_main test_env (test_module Present (Some ''alice'')) [test_db_row ''alice''])
     = ExitJson \<lparr>db_changed = True,
         db_executed_statements = [(''ALTER DATABASE "test_db" OWNER TO alice'', [])]\<rparr>\<close>
  by (simp add: db_defs test_defs)

text \<open>
  C2, as amended: outside check mode, for \<open>state=absent\<close>, or for \<open>state=present\<close> with no
  owner requested, against a server on which \<open>SHOW DATABASES\<close> only reads, a successful
  \<open>CREATE DATABASE\<close> leaves the database listed and a successful \<open>DROP DATABASE\<close> leaves
  it unlisted: a first run that succeeds reports \<open>changed=true\<close> exactly when the
  database was not yet in the requested state, and the second run, against the catalog
  the first one left, reports \<open>changed=false\<close>, logs no statement and sends only the
  catalog read.
\<close>

theorem reconcile_second_run_unchanged:
  assumes nc: "\<not> check_mode m"
    and ow: "p_state m = Absent \<or> \<not> truthy (p_owner m)"
    and sh: "\<forall>c. server env ''SHOW DATABASES'' c = Inr c"
    and cr: \<open>\<forall>c c'. server env (''CREATE DATABASE "'' @ p_name m @ ''"'') c = Inr c'
               \<longrightarrow> p_name m \<in> d_database_name ` set c'\<close>
    and dr: \<open>\<forall>c c'. server env (''DROP DATABASE "'' @ p_name m @ ''"'') c = Inr c'
               \<longrightarrow> p_name m \<notin> d_database_name ` set c'\<close>
    and run: "db_main env m cat = (ExitJson kw, s)"
  shows "db_changed kw
           = (if p_state m = Present then p_name m \<notin> d_database_name ` set cat
              else p_name m \<in> d_database_name ` set cat)
     \<and> db_main env m (catalog s) =
         (ExitJson \<lparr>db_changed = False, db_executed_statements = []\<rparr>,
          \<lparr>catalog = catalog s,
           trace = [Connect, Execute ''SHOW DATABASES'', CursorClose, ConnClose],
           executed_statements = []\<rparr>)"
proof -
  from db_main_exit [OF run] sh
  have env: "connect_error env = None" "cursor_close_error env = None"
      "conn_close_error env = None"
    and ch: "db_changed kw = verdict m (fetched (p_name m) cat)"
    by auto
  have first: "db_changed kw
           = (if p_state m = Present then p_name m \<notin> d_database_name ` set cat
              else p_name m \<in> d_database_name ` set cat)"
    using ch ow by (auto simp: verdict_def fetched_exists)
  have inside: "p_name m \<in> d_database_name ` set (catalog s)" if st: "p_state m = Present"
  proof -
    from db_main_first_run [OF nc ow sh run] st
    consider "p_name m \<in> d_database_name ` set cat" "catalog s = cat"
      | \<open>server env (''CREATE DATABASE "'' @ p_name m @ ''"'') cat = Inr (catalog s)\<close>
      by auto
    then show ?thesis
    proof cases
      case 1
      then show ?thesis by simp
    next
      case 2
      with cr show ?thesis by blast
    qed
  qed
  have outside: "p_name m \<notin> d_database_name ` set (catalog s)" if st: "p_state m = Absent"
  proof -
    from db_main_first_run [OF nc ow sh run] st
    consider "p_name m \<notin> d_database_name ` set cat" "catalog s = cat"
      | \<open>server env (''DROP DATABASE "'' @ p_name m @ ''"'') cat = Inr (catalog s)\<close>
      by auto
    then show ?thesis
    proof cases
      case 1
      then show ?thesis by simp
    next
      case 2
      with dr show ?thesis by blast
    qed
  qed
  have "\<not> verdict m (fetched (p_name m) (catalog s))"
  proof (cases "p_state m")
    case Present
    with inside ow show ?thesis by (simp add: verdict_def fetched_exists)
  next
    case Absent
    with outside show ?thesis by (simp add: verdict_def fetched_exists)
  qed
  from db_main_in_desired_state [OF env _ this] sh first show ?thesis by simp
qed

text \<open>
  The amended C2 at a concrete input: \<open>test_db\<close> is created on an empty catalog, and the
  second run finds it and changes nothing.
\<close>

theorem reconcile_second_run_unchanged_witness:
  \<open>db_main test_env (test_module Present None) []
     = (ExitJson \<lparr>db_changed = True,
          db_executed_statements = [(''CREATE DATABASE "test_db"'', [])]\<rparr>,
        \<lparr>catalog = [test_db_row ''root''],
         trace = [Connect, Execute ''SHOW DATABASES'', Execute ''CREATE DATABASE "test_db"'',
                  CursorClose, ConnClose],
         executed_statements = [(''CREATE DATABASE "test_db"'', [])]\<rparr>)
   \<and> db_main test_env (test_module Present None) [test_db_row ''root'']
     = (ExitJson \<lparr>db_changed = False, db_executed_statements = []\<rparr>,
        \<lparr>catalog = [test_db_row ''root''],
         trace = [Connect, Execute ''SHOW DATABASES'', CursorClose, ConnClose],
         executed_statements = []\<rparr>)\<close>
proof -
  let ?m = "test_module Present None"
  let ?s = \<open>\<lparr>catalog = [test_db_row ''root''],
         trace = [Connect, Execute ''SHOW DATABASES'', Execute ''CREATE DATABASE "test_db"'',
                  CursorClose, ConnClose],
         executed_statements = [(''CREATE DATABASE "test_db"'', [])]\<rparr>\<close>
  have nm: "p_name ?m = ''test_db''" and sv: "server test_env = test_server"
    by (simp_all add: test_module_def test_env_def)
  have nc: "\<not> check_mode ?m" by (simp add: test_module_def)
  have ow: "p_state ?m = Absent \<or> \<not> truthy (p_owner ?m)"
    by (simp add: test_module_def truthy_def)
  have sh: "\<forall>c. server test_env ''SHOW DATABASES'' c = Inr c"
    by (simp add: sv test_server_show)
  have cr: \<open>\<forall>c c'. server test_env (''CREATE DATABASE "'' @ p_name ?m @ ''"'') c = Inr c'
               \<longrightarrow> p_name ?m \<in> d_database_name ` set c'\<close>
    unfolding nm sv using test_server_create by blast
  have dr: \<open>\<forall>c c'. server test_env (''DROP DATABASE "'' @ p_name ?m @ ''"'') c = Inr c'
               \<longrightarrow> p_name ?m \<notin> d_database_name ` set c'\<close>
    unfolding nm sv using test_server_drop by blast
  have run: \<open>db_main test_env ?m []
     = (ExitJson \<lparr>db_changed = True,
          db_executed_statements = [(''CREATE DATABASE "test_db"'', [])]\<rparr>, ?s)\<close>
    by (simp add: db_defs test_defs)
  from reconcile_second_run_unchanged [OF nc ow sh cr dr run] run
  show ?thesis by simp
qed

text \<open>
  C2 as stated fails twice. With \<open>state=absent\<close> on a catalog without the database the
  first run already reports \<open>changed=false\<close>. With \<open>state=present\<close> and owner \<open>alice\<close>
  on a catalog where \<open>test_db\<close> belongs to \<open>root\<close>, the first run alters the owner and
  the second run, on the catalog the first one left, reports \<open>changed=true\<close> again.
\<close>

theorem reconcile_twice_counterexample:
  \<open>fst (db_main test_env (test_module Absent None) [])
     = ExitJson \<lparr>db_changed = False, db_executed_statements = []\<rparr>
   \<and> catalog (snd (db_main test_env (test_module Present (Some ''alice'')) [test_db_row ''root'']))
     = [test_db_row ''alice'']
   \<and> fst (db_main test_env (test_module Present (Some ''alice'')) [test_db_row ''alice''])
     = ExitJson \<lparr>db_changed = True,
         db_executed_statements = [(''ALTER DATABASE "test_db" OWNER TO alice'', [])]\<rparr>\<close>
  by (simp add: db_defs test_defs)

text \<open>
  C3 (the code departs from it): the claim is that a create with an owner requested
  executes one well-formed \<open>CREATE DATABASE "<name>"\<close> with the owner clause separated
  from the quoted name by whitespace. \<open>create\<close> appends \<open>'OWNER %s'\<close> with no space
  before it: on a server that accepts every statement, the one statement sent and logged
  for \<open>test_db\<close> and owner \<open>alice\<close> has \<open>OWNER\<close> right after the closing quote.
\<close>

theorem create_owner_clause_without_separator:
  \<open>db_main (test_env\<lparr>server := \<lambda>query cat. Inr cat\<rparr>) (test_module Present (Some ''alice'')) []
     = (ExitJson \<lparr>db_changed = True,
          db_executed_statements = [(''CREATE DATABASE "test_db"OWNER alice'', [])]\<rparr>,
        \<lparr>catalog = [],
         trace = [Connect, Execute ''SHOW DATABASES'',
                  Execute ''CREATE DATABASE "test_db"OWNER alice'', CursorClose, ConnClose],
         executed_statements = [(''CREATE DATABASE "test_db"OWNER alice'', [])]\<rparr>)\<close>
  by (simp add: db_defs test_defs)

text \<open>
  C4: in check mode \<open>create\<close>, \<open>drop\<close> and \<open>modify\<close>, and with them every branch of the
  job part of \<open>main\<close>, leave the session as it was (no statement sent, nothing logged,
  the catalog untouched); a whole invocation sends nothing but the catalog
  read \<open>SHOW DATABASES\<close>, which every invocation starts with, and logs nothing; and
  whenever the same invocation outside check mode reports a result, the check-mode
  invocation reports the same \<open>changed\<close> with an empty log.
\<close>

theorem check_mode_executes_nothing:
  assumes "check_mode m"
  shows "snd (create env m self s) = s \<and> snd (drop_db env m self s) = s
     \<and> snd (modify env m self ow tg s) = s
     \<and> snd (do_job env m self s) = s
     \<and> set (trace (snd (db_main env m cat)))
          \<subseteq> {Connect, Execute ''SHOW DATABASES'', CursorClose, ConnClose}
     \<and> executed_statements (snd (db_main env m cat)) = []
     \<and> (\<forall>kw' s'. db_main env (m\<lparr>check_mode := False\<rparr>) cat = (ExitJson kw', s') \<longrightarrow>
          fst (db_main env m cat)
            = ExitJson \<lparr>db_changed = db_changed kw', db_executed_statements = []\<rparr>)"
proof -
  have tr: "set (trace (snd (db_main env m cat)))
          \<subseteq> {Connect, Execute ''SHOW DATABASES'', CursorClose, ConnClose}"
    and lg: "executed_statements (snd (db_main env m cat)) = []"
    by (simp_all add: db_main_check_mode [OF assms] split: option.splits sum.splits)
  have vd: "fst (db_main env m cat)
            = ExitJson \<lparr>db_changed = db_changed kw', db_executed_statements = []\<rparr>"
    if "db_main env (m\<lparr>check_mode := False\<rparr>) cat = (ExitJson kw', s')" for kw' s'
  proof -
    from db_main_exit [OF that] obtain c where
      "connect_error env = None" "cursor_close_error env = None" "conn_close_error env = None"
      "server env ''SHOW DATABASES'' cat = Inr c"
      "db_changed kw' = verdict (m\<lparr>check_mode := False\<rparr>) (fetched (p_name m) c)"
      by auto
    then show ?thesis
      by (simp add: db_main_check_mode [OF assms] verdict_def)
  qed
  have jb: "snd (do_job env m self s) = s"
    by (simp add: do_job_check_mode [OF assms])
  from methods_check_mode [OF assms] jb tr lg vd show ?thesis by blast
qed

text \<open>
  C4 at a concrete input: dropping \<open>test_db\<close> in check mode reports \<open>changed=true\<close>, as
  the real run does, and leaves the catalog and the log alone.
\<close>

theorem check_mode_executes_nothing_witness:
  \<open>check_mode ((test_module Absent None)\<lparr>check_mode := True\<rparr>)
   \<and> db_main test_env ((test_module Absent None)\<lparr>check_mode := True\<rparr>) [test_db_row ''root'']
     = (ExitJson \<lparr>db_changed = True, db_executed_statements = []\<rparr>,
        \<lparr>catalog = [test_db_row ''root''],
         trace = [Connect, Execute ''SHOW DATABASES'', CursorClose, ConnClose],
         executed_statements = []\<rparr>)
   \<and> fst (db_main test_env (test_module Absent None) [test_db_row ''root''])
     = ExitJson \<lparr>db_changed = True,
         db_executed_statements = [(''DROP DATABASE "test_db"'', [])]\<rparr>\<close>
proof -
  let ?m = "(test_module Absent None)\<lparr>check_mode := True\<rparr>"
  have cm: "check_mode ?m" by simp
  have same: "?m\<lparr>check_mode := False\<rparr> = test_module Absent None"
    by (simp add: test_module_def)
  have run: \<open>db_main test_env (test_module Absent None) [test_db_row ''root'']
     = (ExitJson \<lparr>db_changed = True,
          db_executed_statements = [(''DROP DATABASE "test_db"'', [])]\<rparr>,
        \<lparr>catalog = [],
         trace = [Connect, Execute ''SHOW DATABASES'', Execute ''DROP DATABASE "test_db"'',
                  CursorClose, ConnClose],
         executed_statements = [(''DROP DATABASE "test_db"'', [])]\<rparr>)\<close>
    by (simp add: db_defs test_defs)
  have chk: \<open>db_main test_env ?m [test_db_row ''root'']
     = (ExitJson \<lparr>db_changed = True, db_executed_statements = []\<rparr>,
        \<lparr>catalog = [test_db_row ''root''],
         trace = [Connect, Execute ''SHOW DATABASES'', CursorClose, ConnClose],
         executed_statements = []\<rparr>)\<close>
    by (simp add: db_defs test_defs)
  from check_mode_executes_nothing [OF cm, of test_env _ _ _ _ "[test_db_row ''root'']"]
    cm run chk same
  show ?thesis by simp
qed

lemma do_job_target:
  "do_job env (m\<lparr>p_target := t\<rparr>) db s = do_job env m db s"
  by (simp add: do_job_def modify_def create_def create_query_def drop_db_def
      split: option.splits)

lemma db_main_target:
  "db_main env (m\<lparr>p_target := t\<rparr>) cat = db_main env m cat"
  unfolding db_main_def do_job_target by (simp cong: option.case_cong)

text \<open>
  C10: the reconciler takes a parameter \<open>target\<close> whose value changes nothing: two
  invocations that differ only in \<open>target\<close> end the same way, with the same statements
  sent and logged and the same verdict.
\<close>

theorem target_has_no_effect:
  "db_main env (m\<lparr>p_target := t1\<rparr>) cat = db_main env (m\<lparr>p_target := t2\<rparr>) cat"
  by (simp only: db_main_target)


section \<open>Properties of the query executor\<close>

lemmas q_defs =
  query_main_def check_mutually_exclusive_def supplied_def get_args_def execute_def
  fetch_from_cursor_def convert_row_def convert_elem_def need_to_convert_def
  convert_to_supported_def close_quietly_def enumerate_eq_zip Let_def

lemmas test_q_defs = test_q_env_def test_q_module_def select_1_def

subsection \<open>Fetching\<close>

text \<open>
  What \<open>execute\<close> does once the statement has run, by what iterating the cursor does.
  The statement without a result set is tolerated; a failure that is not a
  \<open>ProgrammingError\<close> fails the module with a message of its own.
\<close>

lemma execute_no_results_to_fetch:
  assumes "r_mogrify (driver env query args) = Inr text"
    and "r_execute (driver env query args) = None"
    and "r_iter_error (driver env query args) = Some (Psycopg2ProgrammingError ''no results to fetch'')"
  shows "execute env query args tr =
     (Inr (r_statusmessage (driver env query args), Some (r_rowcount (driver env query args)),
           text, []),
      tr @ [Execute query])"
  using assms by (simp add: execute_def fetch_from_cursor_def Let_def)

lemma execute_fetch_failure:
  assumes "r_mogrify (driver env query args) = Inr text"
    and "r_execute (driver env query args) = None"
    and "r_iter_error (driver env query args) = Some (OtherException msg)"
  shows "execute env query args tr =
     (Inl (''Cannot fetch rows from cursor: '' @ msg), tr @ [Execute query])"
  using assms by (simp add: execute_def fetch_from_cursor_def Let_def)

text \<open>
  C5 (the code departs from it): the claim is that a failure while fetching rows, other
  than the benign \<open>no results to fetch\<close>, is fatal and never silently ignored. The
  handler of \<open>ProgrammingError\<close> compares the message with \<open>'no results to fetch'\<close> and
  does nothing in either case: when iterating the cursor raises a \<open>ProgrammingError\<close>
  with another message, the invocation reports success with an empty row sequence.
\<close>

theorem fetch_programming_error_ignored:
  "query_main
     (test_q_env (select_1 (Some (Psycopg2ProgrammingError ''the result set is broken''))))
     (test_q_module ''SELECT 1'')
   = (ExitJson \<lparr>kw_changed = True, kw_statusmessage = Some ''SELECT 1'',
        kw_rowcount = Some 1, kw_query_result = [], kw_query = ''SELECT 1''\<rparr>,
      [Connect, Execute ''SELECT 1'', CursorClose, ConnClose])"
  by (simp add: q_defs test_q_defs)

subsection \<open>Normalization\<close>

lemma convert_noop: "\<not> need_to_convert v \<Longrightarrow> convert_to_supported env v = v"
  by (cases v) (simp_all add: need_to_convert_def convert_to_supported_def)

lemma convert_elem_items:
  "row_items row = map (convert_to_supported env) ys @ x # zs \<Longrightarrow>
   row_items (convert_elem env row (length ys, x)) = map (convert_to_supported env) (ys @ [x]) @ zs"
  by (simp add: convert_elem_def list_update_append convert_noop)

text \<open>
  The inner loop after the first \<open>length ys\<close> elements: they are converted, the rest of
  the row is still as the driver gave it.
\<close>

lemma convert_prefix:
  "row_items row = ys @ zs \<Longrightarrow>
   row_items (foldl (convert_elem env) row (enumerate 0 ys)) = map (convert_to_supported env) ys @ zs"
proof (induction ys arbitrary: zs rule: rev_induct)
  case Nil
  then show ?case by simp
next
  case (snoc x ys)
  from snoc.prems have "row_items row = ys @ x # zs" by simp
  from snoc.IH [OF this]
  have "row_items (foldl (convert_elem env) row (enumerate 0 ys))
          = map (convert_to_supported env) ys @ x # zs" .
  from convert_elem_items [OF this]
  show ?case by (simp add: enumerate_append_eq)
qed

lemma convert_row_items:
  "row_items (convert_row env row) = map (convert_to_supported env) (row_items row)"
  using convert_prefix [of row "row_items row" "[]" env] by (simp add: convert_row_def)

text \<open>
  C6: \<open>convert_to_supported\<close> maps a \<open>Decimal\<close> to the float Python's \<open>float\<close> makes of
  it and a \<open>timedelta\<close> to the string Python's \<open>str\<close> makes of it, and every other value
  to itself; \<open>fetch_from_cursor\<close> applies it to every element of every row: when it
  returns, its rows are the cursor's rows converted elementwise, and when it raises,
  the exception is the one iterating the cursor raised. With Python's \<open>float\<close> for
  \<open>py_float\<close>, \<open>Decimal('12.50')\<close> becomes the float \<open>12.5\<close>.
\<close>

theorem normalization_elementwise:
  "convert_to_supported env (PyDecimal d) = PyFloat (py_float env d)
   \<and> convert_to_supported env (PyTimedelta t) = PyStr (py_str env t)
   \<and> convert_to_supported env PyNone = PyNone
   \<and> convert_to_supported env (PyBool b) = PyBool b
   \<and> convert_to_supported env (PyInt i) = PyInt i
   \<and> convert_to_supported env (PyFloat x) = PyFloat x
   \<and> convert_to_supported env (PyStr s) = PyStr s
   \<and> convert_to_supported env (PyOther c) = PyOther c
   \<and> row_items (convert_row env row) = map (convert_to_supported env) (row_items row)
   \<and> (case fetch_from_cursor env cur of
         Inr query_result \<Rightarrow>
           map row_items query_result
             = map (\<lambda>row. map (convert_to_supported env) (row_items row)) (r_rows cur)
       | Inl e \<Rightarrow> r_iter_error cur = Some e)"
  by (simp add: convert_to_supported_def convert_row_items fetch_from_cursor_def
      split: option.splits)

subsection \<open>The invocation\<close>

text \<open>
  C7: when both \<open>positional_args\<close> and \<open>named_args\<close> are supplied, the invocation is
  rejected by the argument check, whatever the environment: nothing is connected,
  nothing is executed, no result is produced.
\<close>

theorem mutually_exclusive_rejected_before_connect:
  "q_positional_args m \<noteq> None \<Longrightarrow> q_named_args m \<noteq> None \<Longrightarrow>
   query_main env m = (FailJson ''parameters are mutually exclusive'', [])"
  by (simp add: query_main_def check_mutually_exclusive_def supplied_def)

theorem mutually_exclusive_rejected_before_connect_witness:
  "q_positional_args
      \<lparr>q_query = ''SELECT 1'', q_positional_args = Some [PyInt 1],
       q_named_args = Some [(''id_val'', PyInt 1)]\<rparr> \<noteq> None
   \<and> q_named_args
      \<lparr>q_query = ''SELECT 1'', q_positional_args = Some [PyInt 1],
       q_named_args = Some [(''id_val'', PyInt 1)]\<rparr> \<noteq> None
   \<and> query_main (test_q_env (select_1 None))
        \<lparr>q_query = ''SELECT 1'', q_positional_args = Some [PyInt 1],
         q_named_args = Some [(''id_val'', PyInt 1)]\<rparr>
      = (FailJson ''parameters are mutually exclusive'', [])"
  using mutually_exclusive_rejected_before_connect
    [of "\<lparr>q_query = ''SELECT 1'', q_positional_args = Some [PyInt 1],
          q_named_args = Some [(''id_val'', PyInt 1)]\<rparr>" "test_q_env (select_1 None)"]
  by simp

text \<open>
  C8: whenever the executor reports a result, \<open>changed\<close> is true, whatever the
  statement was.
\<close>

theorem query_always_changed:
  "query_main env m = (ExitJson kw, tr) \<Longrightarrow> kw_changed kw = True"
  by (auto simp: query_main_def Let_def split: option.splits prod.splits sum.splits)

text \<open>C8 at a concrete input: the pure read \<open>SELECT 1\<close> is reported as a change.\<close>

theorem query_always_changed_witness:
  "query_main (test_q_env (select_1 None)) (test_q_module ''SELECT 1'')
     = (ExitJson \<lparr>kw_changed = True, kw_statusmessage = Some ''SELECT 1'',
          kw_rowcount = Some 1, kw_query_result = [DriverRow [PyInt 1]],
          kw_query = ''SELECT 1''\<rparr>,
        [Connect, Execute ''SELECT 1'', CursorClose, ConnClose])
   \<and> kw_changed \<lparr>kw_changed = True, kw_statusmessage = Some ''SELECT 1'',
          kw_rowcount = Some 1, kw_query_result = [DriverRow [PyInt (1::int)] :: decimal row],
          kw_query = ''SELECT 1''\<rparr> = True"
proof -
  have run: "query_main (test_q_env (select_1 None)) (test_q_module ''SELECT 1'')
     = (ExitJson \<lparr>kw_changed = True, kw_statusmessage = Some ''SELECT 1'',
          kw_rowcount = Some 1, kw_query_result = [DriverRow [PyInt 1]],
          kw_query = ''SELECT 1''\<rparr>,
        [Connect, Execute ''SELECT 1'', CursorClose, ConnClose])"
    by (simp add: q_defs test_q_defs)
  from query_always_changed [OF run] run show ?thesis by simp
qed


section \<open>Releasing the session\<close>

lemma released_closes: "released (tr @ [CursorClose, ConnClose])"
  by (simp add: released_def)

lemma cursor_execute_closes:
  "(ConnClose \<in> set (trace (snd (cursor_execute env q s)))) = (ConnClose \<in> set (trace s))"
  by (simp add: cursor_execute_def Let_def split: sum.splits)

lemma create_closes:
  "(ConnClose \<in> set (trace (snd (create env m self s)))) = (ConnClose \<in> set (trace s))"
  using cursor_execute_closes [of env "create_query m self" s]
  by (auto simp: create_def Let_def split: prod.splits sum.splits)

lemma drop_db_closes:
  "(ConnClose \<in> set (trace (snd (drop_db env m self s)))) = (ConnClose \<in> set (trace s))"
  using cursor_execute_closes [of env "drop_query self" s]
  by (auto simp: drop_db_def Let_def split: prod.splits sum.splits)

lemma change_owner_closes:
  "(ConnClose \<in> set (trace (snd (change_owner env self ow s)))) = (ConnClose \<in> set (trace s))"
  using cursor_execute_closes [of env "change_owner_query self ow" s]
  by (auto simp: change_owner_def Let_def split: prod.splits sum.splits)

lemma modify_closes:
  "(ConnClose \<in> set (trace (snd (modify env m self ow tg s)))) = (ConnClose \<in> set (trace s))"
proof (cases ow)
  case None
  then show ?thesis by (simp add: modify_def)
next
  case (Some new_owner)
  with change_owner_closes [of env self new_owner s] show ?thesis
    by (auto simp: modify_def split: prod.splits sum.splits)
qed

lemma do_job_closes:
  "(ConnClose \<in> set (trace (snd (do_job env m db s)))) = (ConnClose \<in> set (trace s))"
  using create_closes [of env m db s] drop_db_closes [of env m db s]
    modify_closes [of env m db "p_owner m" "p_target m" s]
  by (auto simp: do_job_def split: prod.splits sum.splits)

lemma do_job_no_close:
  "do_job env m db s = (r, s') \<Longrightarrow> ConnClose \<notin> set (trace s) \<Longrightarrow> ConnClose \<notin> set (trace s')"
  using do_job_closes [of env m db s] by simp

lemma db_main_release:
  "(case fst (db_main env m cat) of
      ExitJson kw \<Rightarrow> released (trace (snd (db_main env m cat)))
    | FailJson msg \<Rightarrow> trace (snd (db_main env m cat)) = []
    | Uncaught e \<Rightarrow> ConnClose \<notin> set (trace (snd (db_main env m cat))))"
  by (auto simp: db_main_def database_init_eq cursor_close_def conn_close_def released_closes
      split: option.splits sum.splits prod.splits dest: do_job_no_close)

lemma execute_trace:
  "execute env query args tr = (r, tr') \<Longrightarrow> tr' = tr \<or> tr' = tr @ [Execute query]"
  by (auto simp: execute_def Let_def split: sum.splits option.splits exn.splits if_splits)

lemma close_quietly_released:
  "tr = [Connect] \<or> tr = [Connect, Execute q] \<Longrightarrow>
   released (close_quietly env tr) = (cursor_close_error env = None \<and> conn_close_error env = None)"
  by (auto simp: close_quietly_def released_def split: option.splits)

lemma query_main_release:
  "(case fst (query_main qenv qm) of
      ExitJson kw \<Rightarrow>
        released (snd (query_main qenv qm))
          = (cursor_close_error qenv = None \<and> conn_close_error qenv = None)
    | FailJson msg \<Rightarrow>
        CursorClose \<notin> set (snd (query_main qenv qm)) \<and> ConnClose \<notin> set (snd (query_main qenv qm))
    | Uncaught e \<Rightarrow> False)"
proof (cases "check_mutually_exclusive [[''positional_args'', ''named_args'']] (supplied qm)")
  case (Some msg)
  then show ?thesis by (simp add: query_main_def)
next
  case None
  note chk = this
  show ?thesis
  proof (cases "connect_error qenv")
    case (Some msg)
    with chk show ?thesis by (simp add: query_main_def)
  next
    case None
    obtain r tr where ex:
      "execute qenv (q_query qm) (get_args (q_positional_args qm) (q_named_args qm)) [Connect]
         = (r, tr)"
      by (cases "execute qenv (q_query qm) (get_args (q_positional_args qm) (q_named_args qm)) [Connect]")
    from execute_trace [OF ex]
    have tr: "tr = [Connect] \<or> tr = [Connect, Execute (q_query qm)]" by simp
    show ?thesis
    proof (cases r)
      case (Inl msg)
      with chk None ex tr show ?thesis by (auto simp: query_main_def Let_def)
    next
      case (Inr res)
      with chk None ex close_quietly_released [OF tr, of qenv] show ?thesis
        by (simp add: query_main_def Let_def split: prod.splits)
    qed
  qed
qed

text \<open>
  C9, as amended: the session is released on the success path only. When the reconciler
  reports a result, the last two events are the cursor's close and the connection's
  close; when it ends with an exception, the connection was not closed. When the
  executor reports a result, the session is released exactly if neither close raised
  (an exception of \<open>cursor.close()\<close> is swallowed and skips \<open>conn.close()\<close>); when it
  fails, neither close was made.
\<close>

theorem session_released_on_success_only:
  "(case fst (db_main env m cat) of
      ExitJson kw \<Rightarrow> released (trace (snd (db_main env m cat)))
    | FailJson msg \<Rightarrow> trace (snd (db_main env m cat)) = []
    | Uncaught e \<Rightarrow> ConnClose \<notin> set (trace (snd (db_main env m cat))))
   \<and> (case fst (query_main qenv qm) of
      ExitJson kw \<Rightarrow>
        released (snd (query_main qenv qm))
          = (cursor_close_error qenv = None \<and> conn_close_error qenv = None)
    | FailJson msg \<Rightarrow>
        CursorClose \<notin> set (snd (query_main qenv qm)) \<and> ConnClose \<notin> set (snd (query_main qenv qm))
    | Uncaught e \<Rightarrow> False)"
  using db_main_release query_main_release by blast

text \<open>
  The amended C9 at a concrete input: a successful drop and a successful \<open>SELECT 1\<close>
  both end with the two closes.
\<close>

theorem session_released_on_success_only_witness:
  \<open>db_main test_env (test_module Absent None) [test_db_row ''root'']
     = (ExitJson \<lparr>db_changed = True,
          db_executed_statements = [(''DROP DATABASE "test_db"'', [])]\<rparr>,
        \<lparr>catalog = [],
         trace = [Connect, Execute ''SHOW DATABASES'', Execute ''DROP DATABASE "test_db"'',
                  CursorClose, ConnClose],
         executed_statements = [(''DROP DATABASE "test_db"'', [])]\<rparr>)
   \<and> released [Connect, Execute ''SHOW DATABASES'', Execute ''DROP DATABASE "test_db"'',
                  CursorClose, ConnClose]
   \<and> snd (query_main (test_q_env (select_1 None)) (test_q_module ''SELECT 1''))
       = [Connect, Execute ''SELECT 1'', CursorClose, ConnClose]
   \<and> released [Connect, Execute ''SELECT 1'', CursorClose, ConnClose]\<close>
proof -
  have run: \<open>db_main test_env (test_module Absent None) [test_db_row ''root'']
     = (ExitJson \<lparr>db_changed = True,
          db_executed_statements = [(''DROP DATABASE "test_db"'', [])]\<rparr>,
        \<lparr>catalog = [],
         trace = [Connect, Execute ''SHOW DATABASES'', Execute ''DROP DATABASE "test_db"'',
                  CursorClose, ConnClose],
         executed_statements = [(''DROP DATABASE "test_db"'', [])]\<rparr>)\<close>
    by (simp add: db_defs test_defs)
  have qrun: "query_main (test_q_env (select_1 None)) (test_q_module ''SELECT 1'')
     = (ExitJson \<lparr>kw_changed = True, kw_statusmessage = Some ''SELECT 1'',
          kw_rowcount = Some 1, kw_query_result = [DriverRow [PyInt 1]],
          kw_query = ''SELECT 1''\<rparr>,
        [Connect, Execute ''SELECT 1'', CursorClose, ConnClose])"
    by (simp add: q_defs test_q_defs)
  have cl: "cursor_close_error (test_q_env (select_1 None)) = None"
      "conn_close_error (test_q_env (select_1 None)) = None"
    by (simp_all add: test_q_env_def)
  from session_released_on_success_only
      [of test_env "test_module Absent None" "[test_db_row ''root'']"
          "test_q_env (select_1 None)" "test_q_module ''SELECT 1''"] run qrun cl
  show ?thesis by simp
qed

text \<open>
  C9 as stated fails on the failure paths of both handlers. A reconciler whose
  \<open>CREATE DATABASE\<close> raises ends with the exception right after the statement, and an
  executor whose statement raises fails right after it: in both, no close was made.
\<close>

theorem session_not_released_on_failure:
  \<open>db_main (test_env\<lparr>server := failing_server\<rparr>) (test_module Present None) []
     = (Uncaught (OtherException ''connection lost''),
        \<lparr>catalog = [],
         trace = [Connect, Execute ''SHOW DATABASES'', Execute ''CREATE DATABASE "test_db"''],
         executed_statements = []\<rparr>)
   \<and> \<not> released [Connect, Execute ''SHOW DATABASES'', Execute ''CREATE DATABASE "test_db"'']
   \<and> query_main
        (test_q_env ((select_1 None)\<lparr>r_execute := Some (OtherException ''connection lost'')\<rparr>))
        (test_q_module ''SELECT 1'')
     = (FailJson ''Cannot execute query "SELECT 1": connection lost'',
        [Connect, Execute ''SELECT 1''])
   \<and> \<not> released [Connect, Execute ''SELECT 1'']\<close>
  by (simp add: db_defs test_defs failing_server_def q_defs test_q_defs released_def)

end
